theory Spec2Isabelle
  imports Complex_Main
begin

section \<open>The outside world: COM calls, the output file, exceptions\<close>

text \<open>
  The script talks to the measurement tool through COM objects and to the output file
  through \<^verbatim>\<open>csv.writer\<close>. Each such call either raises or returns. The world is
  modelled as a deterministic oracle that answers a call from the history of all calls
  made so far, and every function of the script threads that history (the trace).
  Printing has no modelled effect, and neither have the pauses of fixed length in the
  calibration engine. The pause of the sampling loop, \<^verbatim>\<open>time.sleep(interval)\<close>, takes
  the caller's number to the platform's timer and is a call to the world.
\<close>

datatype cell = Text string | Number real

datatype call =
    GetCalibrationValueInDevice string
  | CalibGetDoublePhysValue string
  | CalibSetDoublePhysValue string real
  | Synchronize
  | DownloadWorkingPage
  | SyncWorkingPageToEcu
  | GetMeasurementValueInDevice string
  | MeasGetDoublePhysValue string
  | StopMeasurement
  | WriteToMonitor string
  | OpenCsv string
  | WriteRow "cell list"
  | CloseCsv
  | Sleep real

text \<open>For a call whose result the script does not use, only the constructor of the
  reply matters.\<close>

datatype reply = Raises | Returns real

type_synonym trace = "(call \<times> reply) list"

type_synonym env = "trace \<Rightarrow> call \<Rightarrow> reply"

datatype error = TypeError | ValueError | ZeroDivisionError | OSError | OverflowError

definition invoke :: "env \<Rightarrow> call \<Rightarrow> trace \<Rightarrow> reply \<times> trace" where
  "invoke env c t = (env t c, t @ [(c, env t c)])"

section \<open>Floats\<close>

text \<open>
  A Python float is an IEEE 754 binary64 number. The finite ones are real numbers, and
  a float that the program receives (an argument, a value read from the device) is a
  finite real here. An arithmetic operation gives the exact result rounded to the
  nearest float, ties to the even mantissa, and an infinity when the rounded result
  lies beyond the largest finite float. NaN does not arise from the operations of the
  script on finite floats, and is outside the model, as are infinities on input.

  \<open>bit_length\<close> is the number of binary digits of a natural number, \<open>binade x\<close> the
  exponent \<open>e\<close> with \<open>2 ^ e \<le> x < 2 ^ (e + 1)\<close> for a positive \<open>x\<close>. A float has 53
  binary digits from its binade on, and the exponent does not go below -1022.
\<close>

definition round_half_even :: "real \<Rightarrow> int" where
  "round_half_even x =
     (let n = \<lfloor>x\<rfloor>; f = x - of_int n
      in if f < 1 / 2 then n else if 1 / 2 < f then n + 1 else if even n then n else n + 1)"

fun bit_length :: "nat \<Rightarrow> nat" where
  "bit_length n = (if n = 0 then 0 else Suc (bit_length (n div 2)))"

declare bit_length.simps [simp del]

definition binade :: "real \<Rightarrow> int" where
  "binade x =
     (if 1 \<le> x then int (bit_length (nat \<lfloor>x\<rfloor>)) - 1
      else - int (bit_length (nat (\<lceil>1 / x\<rceil> - 1))))"

definition round_double :: "real \<Rightarrow> real" where
  "round_double x =
     (if x = 0 then 0
      else let e = max (binade \<bar>x\<bar>) (- 1022); ulp = 2 powi (e - 52)
           in sgn x * of_int (round_half_even (\<bar>x\<bar> / ulp)) * ulp)"

text \<open>The largest finite float is \<open>2 ^ 1024 - 2 ^ 971\<close>; an exact result at or beyond the
  middle between it and \<open>2 ^ 1024\<close> rounds to an infinity.\<close>

definition overflows :: "real \<Rightarrow> bool" where
  "overflows x = (2 ^ 1024 - 2 ^ 970 \<le> \<bar>x\<bar>)"

datatype pyfloat = Finite real | PlusInfinity | MinusInfinity

definition float_round :: "real \<Rightarrow> pyfloat" where
  "float_round x =
     (if overflows x then (if x < 0 then MinusInfinity else PlusInfinity)
      else Finite (round_double x))"

section \<open>CalibrationApplicator\<close>

text \<open>\<^verbatim>\<open>_read_calibration\<close>: any exception of the two COM calls gives \<^verbatim>\<open>None\<close>.\<close>

definition read_calibration :: "env \<Rightarrow> string \<Rightarrow> trace \<Rightarrow> real option \<times> trace" where
  "read_calibration env var_name t =
     (case invoke env (GetCalibrationValueInDevice var_name) t of
        (Raises, t1) \<Rightarrow> (None, t1)
      | (Returns _, t1) \<Rightarrow>
          (case invoke env (CalibGetDoublePhysValue var_name) t1 of
             (Raises, t2) \<Rightarrow> (None, t2)
           | (Returns v, t2) \<Rightarrow> (Some v, t2)))"

text \<open>\<^verbatim>\<open>_sync_memory\<close>: the three methods in the order of the source's list; the loop
  returns at the first one that does not raise.\<close>

definition sync_methods :: "call list" where
  "sync_methods = [Synchronize, DownloadWorkingPage, SyncWorkingPageToEcu]"

fun try_sync :: "env \<Rightarrow> call list \<Rightarrow> trace \<Rightarrow> bool \<times> trace" where
  "try_sync env [] t = (False, t)"
| "try_sync env (m # ms) t =
     (case invoke env m t of
        (Raises, t1) \<Rightarrow> try_sync env ms t1
      | (Returns _, t1) \<Rightarrow> (True, t1))"

definition sync_memory :: "env \<Rightarrow> trace \<Rightarrow> bool \<times> trace" where
  "sync_memory env t = try_sync env sync_methods t"

text \<open>\<^verbatim>\<open>_write_calibration\<close>: the result of \<^verbatim>\<open>_sync_memory\<close> is dropped.\<close>

definition write_calibration :: "env \<Rightarrow> string \<Rightarrow> real \<Rightarrow> trace \<Rightarrow> bool \<times> trace" where
  "write_calibration env var_name val t =
     (case invoke env (GetCalibrationValueInDevice var_name) t of
        (Raises, t1) \<Rightarrow> (False, t1)
      | (Returns _, t1) \<Rightarrow>
          (case invoke env (CalibSetDoublePhysValue var_name val) t1 of
             (Raises, t2) \<Rightarrow> (False, t2)
           | (Returns _, t2) \<Rightarrow> (True, snd (sync_memory env t2))))"

text \<open>
  \<^verbatim>\<open>_verify_calibration\<close>: \<^verbatim>\<open>for retry in range(3)\<close>, with the number of remaining
  rounds as the recursion argument and the variable \<^verbatim>\<open>verify_val\<close> carried along.
  After the loop the source formats \<^verbatim>\<open>verify_val\<close> with \<^verbatim>\<open>:.2f\<close>, which raises
  \<^verbatim>\<open>TypeError\<close> when the value is \<^verbatim>\<open>None\<close>.
\<close>

text \<open>The test of the loop: \<^verbatim>\<open>verify_val is not None and
  abs(verify_val - expected_value) < 0.01\<close>, the difference and the literal being
  floats.\<close>

definition within_tolerance :: "real option \<Rightarrow> real \<Rightarrow> bool" where
  "within_tolerance verify_val expected_value =
     (case verify_val of
        None \<Rightarrow> False
      | Some v \<Rightarrow>
          (case float_round (v - expected_value) of
             Finite d \<Rightarrow> \<bar>d\<bar> < round_double (1 / 100)
           | _ \<Rightarrow> False))"

fun verify_retries ::
  "env \<Rightarrow> string \<Rightarrow> real \<Rightarrow> nat \<Rightarrow> real option \<Rightarrow> trace \<Rightarrow> (error + bool) \<times> trace" where
  "verify_retries env var_name expected_value 0 verify_val t =
     (case verify_val of None \<Rightarrow> (Inl TypeError, t) | Some v \<Rightarrow> (Inr False, t))"
| "verify_retries env var_name expected_value (Suc k) verify_val t =
     (case read_calibration env var_name t of
        (r, t1) \<Rightarrow>
          if within_tolerance r expected_value then (Inr True, t1)
          else verify_retries env var_name expected_value k r t1)"

definition verify_calibration ::
  "env \<Rightarrow> string \<Rightarrow> real \<Rightarrow> trace \<Rightarrow> (error + bool) \<times> trace" where
  "verify_calibration env var_name expected_value t =
     verify_retries env var_name expected_value 3 None t"

text \<open>\<^verbatim>\<open>_apply_single\<close>: diagnostic read, write, and verification only after a
  write that returned \<^verbatim>\<open>True\<close>.\<close>

definition apply_single ::
  "env \<Rightarrow> string \<Rightarrow> real \<Rightarrow> trace \<Rightarrow> (error + bool) \<times> trace" where
  "apply_single env var_name new_value t =
     (case read_calibration env var_name t of
        (current_val, t1) \<Rightarrow>
          (case write_calibration env var_name new_value t1 of
             (False, t2) \<Rightarrow> (Inr False, t2)
           | (True, t2) \<Rightarrow> verify_calibration env var_name new_value t2))"

text \<open>\<^verbatim>\<open>apply_all\<close>: the dictionary as the list of its items; there is no
  \<^verbatim>\<open>try\<close> around \<^verbatim>\<open>_apply_single\<close>, so an exception ends the loop.\<close>

fun apply_loop ::
  "env \<Rightarrow> (string \<times> real) list \<Rightarrow> nat \<Rightarrow> nat \<Rightarrow> trace \<Rightarrow> (error + nat \<times> nat) \<times> trace" where
  "apply_loop env [] success_count fail_count t = (Inr (success_count, fail_count), t)"
| "apply_loop env ((var_name, new_value) # rest) success_count fail_count t =
     (case apply_single env var_name new_value t of
        (Inl e, t1) \<Rightarrow> (Inl e, t1)
      | (Inr True, t1) \<Rightarrow> apply_loop env rest (success_count + 1) fail_count t1
      | (Inr False, t1) \<Rightarrow> apply_loop env rest success_count (fail_count + 1) t1)"

definition apply_all ::
  "env \<Rightarrow> (string \<times> real) list \<Rightarrow> trace \<Rightarrow> (error + nat \<times> nat) \<times> trace" where
  "apply_all env calib_dict t = apply_loop env calib_dict 0 0 t"

text \<open>
  Two notions for the statements below. The write call fails when one of the two COM
  calls of \<^verbatim>\<open>_write_calibration\<close> before the synchronisation raises. A read-back is a
  \<^verbatim>\<open>GetDoublePhysValue\<close> call on a calibration object.
\<close>

definition write_raises :: "env \<Rightarrow> string \<Rightarrow> real \<Rightarrow> trace \<Rightarrow> bool" where
  "write_raises env var_name val t =
     (env t (GetCalibrationValueInDevice var_name) = Raises \<or>
      env (t @ [(GetCalibrationValueInDevice var_name,
                 env t (GetCalibrationValueInDevice var_name))])
          (CalibSetDoublePhysValue var_name val) = Raises)"

definition is_read_back :: "call \<Rightarrow> bool" where
  "is_read_back c = (case c of CalibGetDoublePhysValue _ \<Rightarrow> True | _ \<Rightarrow> False)"

text \<open>The trace after the two COM calls that \<^verbatim>\<open>_write_calibration\<close> makes before it
  synchronises.\<close>

definition write_calls :: "env \<Rightarrow> string \<Rightarrow> real \<Rightarrow> trace \<Rightarrow> trace" where
  "write_calls env var_name val t =
     snd (invoke env (CalibSetDoublePhysValue var_name val)
            (snd (invoke env (GetCalibrationValueInDevice var_name) t)))"

section \<open>INCADemoController\<close>

text \<open>
  The fields of the controller. The COM objects \<^verbatim>\<open>inca\<close>, \<^verbatim>\<open>experiment\<close> and
  \<^verbatim>\<open>device\<close> are handles (\<^verbatim>\<open>None\<close> before the connection); what they answer is
  the world's business (the field \<^verbatim>\<open>experiment\<close> is \<open>experiment_obj\<close> here, the
  plain name being reserved). \<^verbatim>\<open>measurement_vars\<close> is a dictionary whose order matters, so it
  is an association list in insertion order.
\<close>

type_synonym handle = nat

record controller =
  project_name :: string
  inca :: "handle option"
  experiment_obj :: "handle option"
  device :: "handle option"
  device_name :: "string option"
  measurement_started :: bool
  measurement_vars :: "(string \<times> string) list"

definition init_controller :: "string \<Rightarrow> controller" where
  "init_controller name =
     \<lparr>project_name = name, inca = None, experiment_obj = None, device = None,
      device_name = None, measurement_started = False, measurement_vars = []\<rparr>"

subsection \<open>String operations of the language\<close>










definition dict_values :: "('k \<times> 'v) list \<Rightarrow> 'v list" where
  "dict_values d = map snd d"

subsection \<open>set_measurement_vars and stop_measurement\<close>




text \<open>The text sent to the monitor after a stop, as UTF-8 bytes.\<close>

definition stopped_message :: string where
  "stopped_message =
     [CHR 0xEC, CHR 0xB8, CHR 0xA1, CHR 0xEC, CHR 0xA0, CHR 0x95, CHR 0xEC, CHR 0x9D,
      CHR 0xB4, CHR 0x20, CHR 0xEC, CHR 0xA4, CHR 0x91, CHR 0xEC, CHR 0xA7, CHR 0x80,
      CHR 0xEB, CHR 0x90, CHR 0x98, CHR 0xEC, CHR 0x97, CHR 0x88, CHR 0xEC, CHR 0x8A,
      CHR 0xB5, CHR 0xEB, CHR 0x8B, CHR 0x88, CHR 0xEB, CHR 0x8B, CHR 0xA4, CHR 0x2E]"

text \<open>
  \<^verbatim>\<open>stop_measurement\<close>: a method call on a handle that is \<^verbatim>\<open>None\<close> raises
  \<^verbatim>\<open>AttributeError\<close> inside the \<^verbatim>\<open>try\<close>, which the \<^verbatim>\<open>except\<close> turns into
  \<^verbatim>\<open>False\<close>. The flag is cleared between the two COM calls.
\<close>

definition stop_measurement :: "env \<Rightarrow> controller \<Rightarrow> trace \<Rightarrow> bool \<times> controller \<times> trace" where
  "stop_measurement env self t =
     (if \<not> measurement_started self then (True, self, t)
      else (case experiment_obj self of
              None \<Rightarrow> (False, self, t)
            | Some _ \<Rightarrow>
                (case invoke env StopMeasurement t of
                   (Raises, t1) \<Rightarrow> (False, self, t1)
                 | (Returns _, t1) \<Rightarrow>
                     (let self1 = self\<lparr>measurement_started := False\<rparr>
                      in (case inca self1 of
                            None \<Rightarrow> (False, self1, t1)
                          | Some _ \<Rightarrow>
                              (case invoke env (WriteToMonitor stopped_message) t1 of
                                 (Raises, t2) \<Rightarrow> (False, self1, t2)
                               | (Returns _, t2) \<Rightarrow> (True, self1, t2)))))))"

text \<open>Two calls in a row, and the number of \<^verbatim>\<open>StopMeasurement\<close> calls in a trace.\<close>

definition stop_twice :: "env \<Rightarrow> controller \<Rightarrow> trace \<Rightarrow> bool \<times> controller \<times> trace" where
  "stop_twice env self t =
     (case stop_measurement env self t of (r1, self1, t1) \<Rightarrow> stop_measurement env self1 t1)"


definition stop_calls :: "trace \<Rightarrow> nat" where
  "stop_calls t = length (filter (\<lambda>e. fst e = StopMeasurement) t)"

section \<open>Formatting\<close>

text \<open>
  Decimal digits of a natural number (\<^verbatim>\<open>str(counter)\<close>), and a field of fixed
  width filled with zeros, as \<^verbatim>\<open>strftime\<close> prints the fields of a date (whose
  values always fit their width).
\<close>

definition digit_char :: "nat \<Rightarrow> char" where
  "digit_char d = char_of (48 + d)"

fun digits :: "nat \<Rightarrow> string" where
  "digits n = (if n < 10 then [digit_char n] else digits (n div 10) @ [digit_char (n mod 10)])"

declare digits.simps [simp del]

fun zero_padded :: "nat \<Rightarrow> nat \<Rightarrow> string" where
  "zero_padded 0 n = []"
| "zero_padded (Suc w) n = zero_padded w (n div 10) @ [digit_char (n mod 10)]"

text \<open>
  \<^verbatim>\<open>f"{x:.Nf}"\<close>: the value rounded to \<open>N\<close> decimals, ties to the even digit, with the
  sign of \<open>x\<close>; \<^verbatim>\<open>f"{s:>15}"\<close> fills with blanks on the left.
\<close>

definition format_f :: "nat \<Rightarrow> real \<Rightarrow> string" where
  "format_f d x =
     (let r = nat (round_half_even (\<bar>x\<bar> * 10 ^ d))
      in (if x < 0 then ''-'' else []) @ digits (r div 10 ^ d) @
         (if d = 0 then [] else ''.'' @ zero_padded d (r mod 10 ^ d)))"

definition format_float :: "nat \<Rightarrow> pyfloat \<Rightarrow> string" where
  "format_float d x =
     (case x of Finite r \<Rightarrow> format_f d r | PlusInfinity \<Rightarrow> ''inf'' | MinusInfinity \<Rightarrow> ''-inf'')"

definition rjust :: "nat \<Rightarrow> string \<Rightarrow> string" where
  "rjust w s = replicate (w - length s) (CHR '' '') @ s"

text \<open>\<^verbatim>\<open>int(x)\<close> of a float cuts towards zero.\<close>

definition py_int :: "real \<Rightarrow> int" where
  "py_int x = (if 0 \<le> x then \<lfloor>x\<rfloor> else \<lceil>x\<rceil>)"

text \<open>
  \<^verbatim>\<open>datetime.now().strftime('%Y-%m-%d %H:%M:%S.%f')[:-3]\<close>: the clock is a second
  oracle, read at the moment the trace has reached.
\<close>

record datetime =
  year :: nat
  month :: nat
  day :: nat
  hour :: nat
  minute :: nat
  second :: nat
  microsecond :: nat

type_synonym clock = "trace \<Rightarrow> datetime"

definition strftime_seconds :: "datetime \<Rightarrow> string" where
  "strftime_seconds dt =
     zero_padded 4 (year dt) @ ''-'' @ zero_padded 2 (month dt) @ ''-'' @
     zero_padded 2 (day dt) @ '' '' @ zero_padded 2 (hour dt) @ '':'' @
     zero_padded 2 (minute dt) @ '':'' @ zero_padded 2 (second dt)"

definition strftime_micro :: "datetime \<Rightarrow> string" where
  "strftime_micro dt = strftime_seconds dt @ ''.'' @ zero_padded 6 (microsecond dt)"

definition timestamp_of :: "datetime \<Rightarrow> string" where
  "timestamp_of dt = (let s = strftime_micro dt in take (length s - 3) s)"

text \<open>The specification's reading of the same column: the time to the second, a point,
  and the milliseconds in three digits.\<close>

definition millisecond_stamp :: "datetime \<Rightarrow> string" where
  "millisecond_stamp dt =
     strftime_seconds dt @ ''.'' @ zero_padded 3 (microsecond dt div 1000)"

section \<open>MeasurementCollector\<close>

text \<open>\<^verbatim>\<open>_read_measurement\<close>: \<^verbatim>\<open>verbose\<close> only prints.\<close>

definition read_measurement :: "env \<Rightarrow> string \<Rightarrow> trace \<Rightarrow> real option \<times> trace" where
  "read_measurement env var_name t =
     (case invoke env (GetMeasurementValueInDevice var_name) t of
        (Raises, t1) \<Rightarrow> (None, t1)
      | (Returns _, t1) \<Rightarrow>
          (case invoke env (MeasGetDoublePhysValue var_name) t1 of
             (Raises, t2) \<Rightarrow> (None, t2)
           | (Returns v, t2) \<Rightarrow> (Some v, t2)))"

text \<open>
  \<^verbatim>\<open>_read_all_measurements\<close>: the list for the file gets the float itself or the text
  \<^verbatim>\<open>'N/A'\<close>; the list for the screen gets the float with two decimals.
\<close>

definition csv_value :: "real option \<Rightarrow> cell" where
  "csv_value v = (case v of Some x \<Rightarrow> Number x | None \<Rightarrow> Text ''N/A'')"

definition display_value :: "real option \<Rightarrow> string" where
  "display_value v = (case v of Some x \<Rightarrow> rjust 15 (format_f 2 x) | None \<Rightarrow> rjust 15 ''N/A'')"

fun read_all_measurements ::
  "env \<Rightarrow> string list \<Rightarrow> trace \<Rightarrow> (cell list \<times> string list) \<times> trace" where
  "read_all_measurements env [] t = (([], []), t)"
| "read_all_measurements env (var_name # rest) t =
     (case read_measurement env var_name t of
        (v, t1) \<Rightarrow>
          (case read_all_measurements env rest t1 of
             ((vals, display_values), t2) \<Rightarrow>
               ((csv_value v # vals, display_value v # display_values), t2)))"


text \<open>\<^verbatim>\<open>_check_connections\<close>: one read of every variable, counted.\<close>

fun check_connections :: "env \<Rightarrow> string list \<Rightarrow> trace \<Rightarrow> nat \<times> trace" where
  "check_connections env [] t = (0, t)"
| "check_connections env (var_name # rest) t =
     (case read_measurement env var_name t of
        (v, t1) \<Rightarrow>
          (case check_connections env rest t1 of
             (connection_ok, t2) \<Rightarrow> ((if v \<noteq> None then 1 else 0) + connection_ok, t2)))"

text \<open>The two fixed labels of the header, as UTF-8 bytes.\<close>

definition header_elapsed :: string where
  "header_elapsed =
     [CHR 0xEC, CHR 0x8B, CHR 0x9C, CHR 0xEA, CHR 0xB0, CHR 0x84, CHR 0x28,
      CHR 0xEC, CHR 0xB4, CHR 0x88, CHR 0x29]"

definition header_timestamp :: string where
  "header_timestamp =
     [CHR 0xED, CHR 0x83, CHR 0x80, CHR 0xEC, CHR 0x9E, CHR 0x84, CHR 0xEC, CHR 0x8A,
      CHR 0xA4, CHR 0xED, CHR 0x83, CHR 0xAC, CHR 0xED, CHR 0x94, CHR 0x84]"

definition header_row :: "string list \<Rightarrow> cell list" where
  "header_row var_names_list = map Text ([header_elapsed, header_timestamp] @ var_names_list)"

text \<open>
  \<^verbatim>\<open>_open_csv_file\<close>: an exception of \<^verbatim>\<open>open\<close> or of the header's
  \<^verbatim>\<open>writerow\<close> is raised again after the message; in the second case nothing closes
  the file.
\<close>

definition open_csv_file :: "env \<Rightarrow> string \<Rightarrow> string list \<Rightarrow> trace \<Rightarrow> (error + unit) \<times> trace" where
  "open_csv_file env csv_filename var_names_list t =
     (case invoke env (OpenCsv csv_filename) t of
        (Raises, t1) \<Rightarrow> (Inl OSError, t1)
      | (Returns _, t1) \<Rightarrow>
          (case invoke env (WriteRow (header_row var_names_list)) t1 of
             (Raises, t2) \<Rightarrow> (Inl OSError, t2)
           | (Returns _, t2) \<Rightarrow> (Inr (), t2)))"

text \<open>
  \<^verbatim>\<open>_collect_samples\<close>: \<^verbatim>\<open>for i in range(num_samples)\<close>, with the index \<open>i\<close> and
  the number of remaining rounds. \<^verbatim>\<open>(i + 1) * interval\<close> turns the integer into a
  float, which raises \<^verbatim>\<open>OverflowError\<close> for an integer beyond the floats, and
  multiplies. \<^verbatim>\<open>time.sleep(interval)\<close> raises \<^verbatim>\<open>ValueError\<close> for a negative
  interval and \<^verbatim>\<open>OverflowError\<close> for one that the timer of the platform does not
  take; which ones it takes is the world's answer.
\<close>

definition elapsed_text :: "nat \<Rightarrow> real \<Rightarrow> string" where
  "elapsed_text i interval =
     format_float 1 (float_round (round_double (real (i + 1)) * interval))"

fun collect_loop ::
  "env \<Rightarrow> clock \<Rightarrow> string list \<Rightarrow> real \<Rightarrow> nat \<Rightarrow> nat \<Rightarrow> trace \<Rightarrow> (error + unit) \<times> trace" where
  "collect_loop env clk var_names_list interval i 0 t = (Inr (), t)"
| "collect_loop env clk var_names_list interval i (Suc k) t =
     (if overflows (real (i + 1)) then (Inl OverflowError, t)
      else
        (let timestamp = timestamp_of (clk t)
         in (case read_all_measurements env var_names_list t of
               ((vals, display_values), t1) \<Rightarrow>
                 (case invoke env (WriteRow ([Text (elapsed_text i interval), Text timestamp] @ vals)) t1 of
                    (Raises, t2) \<Rightarrow> (Inl OSError, t2)
                  | (Returns _, t2) \<Rightarrow>
                      if interval < 0 then (Inl ValueError, t2)
                      else (case invoke env (Sleep interval) t2 of
                              (Raises, t3) \<Rightarrow> (Inl OverflowError, t3)
                            | (Returns _, t3) \<Rightarrow>
                                collect_loop env clk var_names_list interval (Suc i) k t3)))))"

definition collect_samples ::
  "env \<Rightarrow> clock \<Rightarrow> string list \<Rightarrow> int \<Rightarrow> real \<Rightarrow> trace \<Rightarrow> (error + unit) \<times> trace" where
  "collect_samples env clk var_names_list num_samples interval t =
     collect_loop env clk var_names_list interval 0 (nat num_samples) t"

text \<open>
  \<^verbatim>\<open>collect_and_save\<close>: the division raises for a zero interval, and \<^verbatim>\<open>int\<close>
  raises for an infinite quotient; the file is opened outside the \<^verbatim>\<open>try\<close>, and
  \<^verbatim>\<open>finally\<close> closes it whatever the loop did. An exception of \<^verbatim>\<open>close\<close> itself
  replaces the loop's outcome.
\<close>

definition collect_and_save ::
  "env \<Rightarrow> clock \<Rightarrow> controller \<Rightarrow> real \<Rightarrow> real \<Rightarrow> string \<Rightarrow> trace \<Rightarrow> (error + unit) \<times> trace" where
  "collect_and_save env clk self duration interval csv_filename t =
     (if interval = 0 then (Inl ZeroDivisionError, t)
      else
        (case float_round (duration / interval) of
           Finite ratio \<Rightarrow>
             (let num_samples = py_int ratio;
                  var_names_list = dict_values (measurement_vars self)
              in (case check_connections env var_names_list t of
                    (connection_ok, t1) \<Rightarrow>
                      (case open_csv_file env csv_filename var_names_list t1 of
                         (Inl e, t2) \<Rightarrow> (Inl e, t2)
                       | (Inr csv_file, t2) \<Rightarrow>
                           (case collect_samples env clk var_names_list num_samples interval t2 of
                              (r, t3) \<Rightarrow>
                                (case invoke env CloseCsv t3 of
                                   (Raises, t4) \<Rightarrow> (Inl OSError, t4)
                                 | (Returns _, t4) \<Rightarrow> (r, t4))))))
         | _ \<Rightarrow> (Inl OverflowError, t)))"

text \<open>The rows that reached the file: the \<^verbatim>\<open>writerow\<close> calls that returned.\<close>

fun rows_written :: "trace \<Rightarrow> cell list list" where
  "rows_written [] = []"
| "rows_written ((WriteRow row, Returns v) # t) = row # rows_written t"
| "rows_written (e # t) = rows_written t"

text \<open>A file that takes everything, and a timer that takes the pause.\<close>

definition is_sink_call :: "call \<Rightarrow> bool" where
  "is_sink_call c = (case c of OpenCsv _ \<Rightarrow> True | WriteRow _ \<Rightarrow> True | CloseCsv \<Rightarrow> True | _ \<Rightarrow> False)"

definition sink_works :: "env \<Rightarrow> bool" where
  "sink_works env = (\<forall>t c. is_sink_call c \<longrightarrow> env t c \<noteq> Raises)"

definition timer_works :: "env \<Rightarrow> real \<Rightarrow> bool" where
  "timer_works env interval = (\<forall>t. env t (Sleep interval) \<noteq> Raises)"

section \<open>FileValidator\<close>

text \<open>
  The file system as far as \<^verbatim>\<open>is_file_writable\<close> looks at it: which paths exist,
  for which paths \<^verbatim>\<open>os.path.dirname\<close> is not empty and names nothing that exists,
  and which of \<^verbatim>\<open>open(p, 'w')\<close>, \<^verbatim>\<open>os.remove(p)\<close> and \<^verbatim>\<open>open(p, 'a')\<close> succeed.
  The probes create and delete regular files only, so the directories stay as they
  are. A probe whose file is created and then cannot be removed leaves the file behind.
\<close>

record filesystem =
  path_exists :: "string \<Rightarrow> bool"
  parent_missing :: "string \<Rightarrow> bool"
  creatable :: "string \<Rightarrow> bool"
  removable :: "string \<Rightarrow> bool"
  appendable :: "string \<Rightarrow> bool"

definition is_file_writable :: "string \<Rightarrow> filesystem \<Rightarrow> bool \<times> filesystem" where
  "is_file_writable filename fs =
     (if \<not> path_exists fs filename then
        (if parent_missing fs filename then (False, fs)
         else if \<not> creatable fs filename then (False, fs)
         else if \<not> removable fs filename
           then (False, fs\<lparr>path_exists := (path_exists fs)(filename := True)\<rparr>)
         else (True, fs))
      else (appendable fs filename, fs))"

text \<open>
  \<^verbatim>\<open>os.path.splitext\<close> of the Windows path module the script runs on: the extension
  starts at the last point of the last component, unless only points precede it there.
\<close>

definition rfind :: "char \<Rightarrow> string \<Rightarrow> int" where
  "rfind c p =
     (case filter (\<lambda>i. p ! i = c) (rev [0..<length p]) of
        [] \<Rightarrow> - 1
      | i # _ \<Rightarrow> int i)"

definition splitext :: "string \<Rightarrow> string \<times> string" where
  "splitext p =
     (let sepIndex = max (rfind (CHR 0x5C) p) (rfind (CHR ''/'') p);
          dotIndex = rfind (CHR ''.'') p
      in if sepIndex < dotIndex \<and>
            list_ex (\<lambda>k. p ! k \<noteq> CHR ''.'') [nat (sepIndex + 1)..<nat dotIndex]
         then (take (nat dotIndex) p, drop (nat dotIndex) p)
         else (p, []))"

text \<open>\<^verbatim>\<open>get_available_filename\<close>: \<^verbatim>\<open>for counter in range(1, 101)\<close>, with the
  counter and the number of remaining rounds.\<close>

definition candidate :: "string \<Rightarrow> string \<Rightarrow> nat \<Rightarrow> string" where
  "candidate base_name ext counter = base_name @ ''_'' @ digits counter @ ext"

fun search_candidates ::
  "string \<Rightarrow> string \<Rightarrow> nat \<Rightarrow> nat \<Rightarrow> filesystem \<Rightarrow> string option \<times> filesystem" where
  "search_candidates base_name ext counter 0 fs = (None, fs)"
| "search_candidates base_name ext counter (Suc k) fs =
     (let new_filename = candidate base_name ext counter
      in (case is_file_writable new_filename fs of
            (True, fs1) \<Rightarrow> (Some new_filename, fs1)
          | (False, fs1) \<Rightarrow> search_candidates base_name ext (Suc counter) k fs1))"

definition get_available_filename :: "string \<Rightarrow> filesystem \<Rightarrow> string option \<times> filesystem" where
  "get_available_filename filename fs =
     (case is_file_writable filename fs of
        (True, fs1) \<Rightarrow> (Some filename, fs1)
      | (False, fs1) \<Rightarrow>
          (case splitext filename of
             (base_name, ext) \<Rightarrow> search_candidates base_name ext 1 100 fs1))"

text \<open>A path is available in a file system when the probe answers \<^verbatim>\<open>True\<close> there.\<close>

definition available :: "filesystem \<Rightarrow> string \<Rightarrow> bool" where
  "available fs p = fst (is_file_writable p fs)"

section \<open>Example devices\<close>

text \<open>A device on which every write goes through and every read-back of a calibration
  value raises.\<close>

definition unreadable_device :: env where
  "unreadable_device t c = (case c of CalibGetDoublePhysValue _ \<Rightarrow> Raises | _ \<Rightarrow> Returns 0)"

text \<open>A device that accepts everything and keeps reporting a fixed value.\<close>

definition constant_device :: "real \<Rightarrow> env" where
  "constant_device v t c = Returns v"

text \<open>A device that refuses every write of a calibration value.\<close>

definition write_protected_device :: env where
  "write_protected_device t c =
     (case c of CalibSetDoublePhysValue _ _ \<Rightarrow> Raises | _ \<Rightarrow> Returns 5)"

text \<open>A device without any of the three synchronisation methods.\<close>

definition no_sync_device :: env where
  "no_sync_device t c =
     (case c of Synchronize \<Rightarrow> Raises | DownloadWorkingPage \<Rightarrow> Raises
              | SyncWorkingPageToEcu \<Rightarrow> Raises | _ \<Rightarrow> Returns 1)"

text \<open>A device that lacks the first synchronisation method and has the second.\<close>

definition download_only_device :: env where
  "download_only_device t c = (case c of Synchronize \<Rightarrow> Raises | _ \<Rightarrow> Returns 1)"

text \<open>A device whose \<^verbatim>\<open>StopMeasurement\<close> raises, and a connected controller with a
  measurement running.\<close>

definition stuck_device :: env where
  "stuck_device t c = (case c of StopMeasurement \<Rightarrow> Raises | _ \<Rightarrow> Returns 0)"

definition running_controller :: controller where
  "running_controller = (init_controller ''Demo3'')
     \<lparr>inca := Some 0, experiment_obj := Some 0, device := Some 0,
      measurement_started := True\<rparr>"



section \<open>Properties of the calibration engine\<close>

lemma invoke_eq [simp]: "invoke env c t = (env t c, t @ [(c, env t c)])"
  by (simp add: invoke_def)

text \<open>The facts that evaluate a float operation on given numbers.\<close>

lemmas float_eval = round_double_def binade_def bit_length.simps round_half_even_def Let_def
  power_int_minus overflows_def float_round_def

lemma apply_single_unfold:
  "apply_single env n v t =
     (if fst (write_calibration env n v (snd (read_calibration env n t)))
      then verify_calibration env n v
             (snd (write_calibration env n v (snd (read_calibration env n t))))
      else (Inr False, snd (write_calibration env n v (snd (read_calibration env n t)))))"
  by (simp add: apply_single_def split: prod.splits bool.splits)

lemma write_calibration_fails_iff:
  "\<not> fst (write_calibration env n v t) \<longleftrightarrow> write_raises env n v t"
  by (auto simp: write_calibration_def write_raises_def split: reply.splits)

lemma write_calibration_failed_trace:
  "write_raises env n v t \<Longrightarrow>
   \<exists>evs. snd (write_calibration env n v t) = t @ evs \<and> filter (is_read_back \<circ> fst) evs = []"
  by (auto simp: write_calibration_def write_raises_def is_read_back_def split: reply.splits)

text \<open>When \<^verbatim>\<open>apply_all\<close> returns, every entry has been counted once.\<close>

lemma apply_loop_counts:
  "apply_loop env xs s f t = (Inr (s', f'), t') \<Longrightarrow> s' + f' = s + f + length xs"
proof (induction xs arbitrary: s f t)
  case Nil
  then show ?case by simp
next
  case (Cons x xs)
  obtain n v where x: "x = (n, v)" by (cases x)
  show ?case using Cons.prems Cons.IH x
    by (fastforce split: prod.splits sum.splits bool.splits)
qed

lemma apply_all_counts:
  "apply_all env calib_dict t = (Inr (s, f), t') \<Longrightarrow> s + f = length calib_dict"
  using apply_loop_counts [of env calib_dict 0 0 t s f t'] by (simp add: apply_all_def)

text \<open>
  Claim C1: for every calibration set of size \<open>k\<close>, \<^verbatim>\<open>apply_all\<close> processes every
  entry, lets no exception of a single parameter escape, and returns a summary of
  exactly \<open>k\<close> outcomes with succeeded + failed = \<open>k\<close>.

  The code does not do this. On a calibration set of one entry and a device whose
  read-backs all raise, the write succeeds, the three verification reads give
  \<^verbatim>\<open>None\<close>, and the message after the loop formats \<^verbatim>\<open>None\<close> with \<^verbatim>\<open>:.2f\<close>: the
  \<^verbatim>\<open>TypeError\<close> leaves \<^verbatim>\<open>_verify_calibration\<close>, \<^verbatim>\<open>_apply_single\<close> and
  \<^verbatim>\<open>apply_all\<close>, and no summary is returned.
\<close>

theorem apply_all_raises_on_unreadable_device:
  "fst (apply_all unreadable_device [(''P'', 1)] []) = Inl TypeError"
  by (simp add: apply_all_def apply_single_def read_calibration_def write_calibration_def
      verify_calibration_def sync_memory_def sync_methods_def unreadable_device_def
      within_tolerance_def numeral_3_eq_3)

text \<open>The parts of claim C4 that hold: the three reads written out, and the two values
  of the specification, as the floats nearest to 99.995 and 99.98. The test is made on
  floats: the float nearest to 0.11 is within the tolerance of the float nearest to
  0.1.\<close>

lemma verify_calibration_unfold:
  "verify_calibration env n e t =
     (let r1 = read_calibration env n t;
          r2 = read_calibration env n (snd r1);
          r3 = read_calibration env n (snd r2)
      in if within_tolerance (fst r1) e then (Inr True, snd r1)
         else if within_tolerance (fst r2) e then (Inr True, snd r2)
         else if within_tolerance (fst r3) e then (Inr True, snd r3)
         else (case fst r3 of None \<Rightarrow> (Inl TypeError, snd r3) | Some v \<Rightarrow> (Inr False, snd r3)))"
  by (simp add: verify_calibration_def numeral_3_eq_3 Let_def split: prod.splits option.splits)

lemma within_99995_of_100: "within_tolerance (Some (round_double (99995 / 1000))) 100"
  by (simp add: within_tolerance_def float_eval)

lemma not_within_9998_of_100: "\<not> within_tolerance (Some (round_double (9998 / 100))) 100"
  by (simp add: within_tolerance_def float_eval)

lemma within_011_of_01:
  "within_tolerance (Some (round_double (11 / 100))) (round_double (1 / 10))"
  by (simp add: within_tolerance_def float_eval)

lemma verify_99995_of_100:
  "fst (verify_calibration (constant_device (round_double (99995 / 1000))) n 100 t) = Inr True"
  using within_99995_of_100
  by (simp add: read_calibration_def verify_calibration_def constant_device_def numeral_3_eq_3)

lemma verify_9998_of_100:
  "fst (verify_calibration (constant_device (round_double (9998 / 100))) n 100 t) = Inr False"
  using not_within_9998_of_100
  by (simp add: read_calibration_def verify_calibration_def constant_device_def numeral_3_eq_3)

text \<open>
  Claim C4: after a successful write of the target \<open>t\<close>, the parameter is verified if
  and only if one of at most three read-backs gives a value \<open>v\<close> with
  \<open>\<bar>v - t\<bar> < 0.01\<close> (100.0 read back as 99.995 is verified, as 99.98 is not), and
  after three reads that all fail this test the outcome is "unverified after retries".

  The first part holds (see the lemmas above). The last part fails where the third
  read-back raises: the reads fail the test, and instead of returning \<^verbatim>\<open>False\<close> the
  function raises \<^verbatim>\<open>TypeError\<close> from the message that formats the last value.
\<close>

theorem verify_calibration_raises_after_failed_reads:
  "fst (verify_calibration unreadable_device ''P'' 100 []) = Inl TypeError"
  by (simp add: read_calibration_def verify_calibration_def unreadable_device_def
      within_tolerance_def numeral_3_eq_3)

text \<open>
  Claim C5: for every parameter, if the write call fails, \<^verbatim>\<open>_apply_single\<close> returns
  the failure at once and makes no verification read: the trace ends with the failed
  write, and nothing after the diagnostic read is a read-back.
\<close>

theorem write_failed_skips_verification:
  assumes "write_raises env n v (snd (read_calibration env n t))"
  shows "fst (apply_single env n v t) = Inr False \<and>
         snd (apply_single env n v t) =
           snd (write_calibration env n v (snd (read_calibration env n t))) \<and>
         filter (is_read_back \<circ> fst)
           (drop (length (snd (read_calibration env n t))) (snd (apply_single env n v t))) = []"
proof -
  let ?t1 = "snd (read_calibration env n t)"
  from assms have f: "\<not> fst (write_calibration env n v ?t1)"
    by (simp add: write_calibration_fails_iff)
  have a: "apply_single env n v t = (Inr False, snd (write_calibration env n v ?t1))"
    using f by (simp add: apply_single_unfold)
  from write_calibration_failed_trace [OF assms] obtain evs where
    e: "snd (write_calibration env n v ?t1) = ?t1 @ evs" "filter (is_read_back \<circ> fst) evs = []"
    by blast
  show ?thesis using a e by simp
qed

theorem write_failed_skips_verification_witness:
  "write_raises write_protected_device ''P'' 1
     (snd (read_calibration write_protected_device ''P'' [])) \<and>
   fst (apply_single write_protected_device ''P'' 1 []) = Inr False \<and>
   filter (is_read_back \<circ> fst)
     (drop (length (snd (read_calibration write_protected_device ''P'' [])))
        (snd (apply_single write_protected_device ''P'' 1 []))) = []"
proof -
  have h: "write_raises write_protected_device ''P'' 1
             (snd (read_calibration write_protected_device ''P'' []))"
    by (simp add: write_raises_def read_calibration_def write_protected_device_def)
  show ?thesis using h write_failed_skips_verification [OF h] by blast
qed

text \<open>A write that does not raise ends with the synchronisation; the loop over the
  synchronisation methods, for any list of methods.\<close>

lemma write_calibration_done:
  "\<not> write_raises env n v t \<Longrightarrow>
   write_calibration env n v t = (True, snd (sync_memory env (write_calls env n v t)))"
  by (auto simp: write_calibration_def write_raises_def write_calls_def split: reply.splits)

lemma try_sync_trace:
  "try_sync env ms t = (ok, t') \<Longrightarrow>
   \<exists>evs. t' = t @ evs \<and> map fst evs = take (length evs) ms \<and>
         (\<forall>i < length evs. snd (evs ! i) = env (t @ take i evs) (ms ! i)) \<and>
         (\<forall>e \<in> set (butlast evs). snd e = Raises) \<and>
         (ok \<longrightarrow> evs \<noteq> [] \<and> snd (last evs) \<noteq> Raises) \<and>
         (\<not> ok \<longrightarrow> length evs = length ms \<and> (\<forall>e \<in> set evs. snd e = Raises))"
proof (induction ms arbitrary: t)
  case Nil
  then show ?case by simp
next
  case (Cons m ms)
  show ?case
  proof (cases "env t m")
    case Raises
    with Cons.prems have "try_sync env ms (t @ [(m, Raises)]) = (ok, t')" by simp
    from Cons.IH [OF this] obtain evs where
      e: "t' = (t @ [(m, Raises)]) @ evs" "map fst evs = take (length evs) ms"
         "\<forall>i < length evs. snd (evs ! i) = env ((t @ [(m, Raises)]) @ take i evs) (ms ! i)"
         "\<forall>e \<in> set (butlast evs). snd e = Raises"
         "ok \<longrightarrow> evs \<noteq> [] \<and> snd (last evs) \<noteq> Raises"
         "\<not> ok \<longrightarrow> length evs = length ms \<and> (\<forall>e \<in> set evs. snd e = Raises)"
      by blast
    have b: "\<forall>e \<in> set (butlast ((m, Raises) # evs)). snd e = Raises"
      using e(4) by (cases evs) auto
    have r: "\<forall>i < length ((m, Raises) # evs).
               snd (((m, Raises) # evs) ! i) = env (t @ take i ((m, Raises) # evs)) ((m # ms) ! i)"
    proof (intro allI impI)
      fix i assume i: "i < length ((m, Raises) # evs)"
      show "snd (((m, Raises) # evs) ! i) = env (t @ take i ((m, Raises) # evs)) ((m # ms) ! i)"
      proof (cases i)
        case 0
        then show ?thesis using Raises by simp
      next
        case (Suc j)
        with i have "j < length evs" by simp
        with e(3) Suc show ?thesis by simp
      qed
    qed
    from e b r show ?thesis
      by (intro exI [of _ "(m, Raises) # evs"]) auto
  next
    case (Returns x)
    with Cons.prems have "ok" "t' = t @ [(m, Returns x)]" by auto
    with Returns show ?thesis
      by (intro exI [of _ "[(m, Returns x)]"]) auto
  qed
qed

text \<open>
  Claim C6: after each successful write the synchronisation methods are tried in their
  fixed order, and trying stops at the first one that does not raise. A write whose two
  COM calls return is followed by \<^verbatim>\<open>_sync_memory\<close> and counts as done whatever the
  synchronisation gave. The calls of \<^verbatim>\<open>_sync_memory\<close> are a prefix of the list, each
  recorded with the answer the device gave at that moment; every call but the last one
  raised, and a success is the last call. If all three raise, the write still counts as
  done and \<^verbatim>\<open>_apply_single\<close> goes on to the verification, on the trace the
  synchronisation left.
\<close>

theorem sync_stops_at_first_success:
  "(sync_memory env t = (ok, t') \<longrightarrow>
      (\<exists>evs. t' = t @ evs \<and> map fst evs = take (length evs) sync_methods \<and>
             (\<forall>i < length evs. snd (evs ! i) = env (t @ take i evs) (sync_methods ! i)) \<and>
             (\<forall>e \<in> set (butlast evs). snd e = Raises) \<and>
             (ok \<longrightarrow> evs \<noteq> [] \<and> snd (last evs) \<noteq> Raises) \<and>
             (\<not> ok \<longrightarrow> length evs = length sync_methods \<and>
                       (\<forall>e \<in> set evs. snd e = Raises)))) \<and>
   (\<not> write_raises env n v t \<longrightarrow>
      write_calibration env n v t = (True, snd (sync_memory env (write_calls env n v t)))) \<and>
   (\<not> write_raises env n v (snd (read_calibration env n t0)) \<longrightarrow>
      apply_single env n v t0 =
        verify_calibration env n v
          (snd (sync_memory env (write_calls env n v (snd (read_calibration env n t0))))))"
proof (intro conjI impI)
  assume "sync_memory env t = (ok, t')"
  then show "\<exists>evs. t' = t @ evs \<and> map fst evs = take (length evs) sync_methods \<and>
             (\<forall>i < length evs. snd (evs ! i) = env (t @ take i evs) (sync_methods ! i)) \<and>
             (\<forall>e \<in> set (butlast evs). snd e = Raises) \<and>
             (ok \<longrightarrow> evs \<noteq> [] \<and> snd (last evs) \<noteq> Raises) \<and>
             (\<not> ok \<longrightarrow> length evs = length sync_methods \<and>
                       (\<forall>e \<in> set evs. snd e = Raises))"
    unfolding sync_memory_def by (rule try_sync_trace)
next
  assume "\<not> write_raises env n v t"
  then show "write_calibration env n v t = (True, snd (sync_memory env (write_calls env n v t)))"
    by (rule write_calibration_done)
next
  assume a: "\<not> write_raises env n v (snd (read_calibration env n t0))"
  from write_calibration_done [OF a] show "apply_single env n v t0 =
        verify_calibration env n v
          (snd (sync_memory env (write_calls env n v (snd (read_calibration env n t0)))))"
    by (simp add: apply_single_unfold)
qed

theorem sync_stops_at_first_success_witness:
  "sync_memory no_sync_device [] =
     (False, [(Synchronize, Raises), (DownloadWorkingPage, Raises),
              (SyncWorkingPageToEcu, Raises)]) \<and>
   sync_memory download_only_device [] =
     (True, [(Synchronize, Raises), (DownloadWorkingPage, Returns 1)]) \<and>
   \<not> write_raises download_only_device ''P'' 1 [] \<and>
   write_calibration download_only_device ''P'' 1 [] =
     (True, [(GetCalibrationValueInDevice ''P'', Returns 1),
             (CalibSetDoublePhysValue ''P'' 1, Returns 1),
             (Synchronize, Raises), (DownloadWorkingPage, Returns 1)]) \<and>
   \<not> write_raises no_sync_device ''P'' 1 (snd (read_calibration no_sync_device ''P'' [])) \<and>
   apply_single no_sync_device ''P'' 1 [] =
     verify_calibration no_sync_device ''P'' 1
       (snd (sync_memory no_sync_device
          (write_calls no_sync_device ''P'' 1 (snd (read_calibration no_sync_device ''P'' [])))))"
proof -
  have s: "sync_memory no_sync_device [] =
     (False, [(Synchronize, Raises), (DownloadWorkingPage, Raises),
              (SyncWorkingPageToEcu, Raises)])"
    by (simp add: sync_memory_def sync_methods_def no_sync_device_def)
  have d: "sync_memory download_only_device [] =
     (True, [(Synchronize, Raises), (DownloadWorkingPage, Returns 1)])"
    by (simp add: sync_memory_def sync_methods_def download_only_device_def)
  have w: "\<not> write_raises download_only_device ''P'' 1 []"
    by (simp add: write_raises_def download_only_device_def)
  have c: "snd (sync_memory download_only_device (write_calls download_only_device ''P'' 1 [])) =
     [(GetCalibrationValueInDevice ''P'', Returns 1),
      (CalibSetDoublePhysValue ''P'' 1, Returns 1),
      (Synchronize, Raises), (DownloadWorkingPage, Returns 1)]"
    by (simp add: sync_memory_def sync_methods_def download_only_device_def write_calls_def)
  have w': "\<not> write_raises no_sync_device ''P'' 1
              (snd (read_calibration no_sync_device ''P'' []))"
    by (simp add: write_raises_def no_sync_device_def)
  show ?thesis
    using s d w w' c
      sync_stops_at_first_success [of no_sync_device "[]" False
        "[(Synchronize, Raises), (DownloadWorkingPage, Raises), (SyncWorkingPageToEcu, Raises)]"
        "''P''" 1 "[]"]
      sync_stops_at_first_success [of download_only_device "[]" True
        "[(Synchronize, Raises), (DownloadWorkingPage, Returns 1)]"
        "''P''" 1 "[]"]
    by simp
qed

section \<open>Properties of the controller\<close>

text \<open>
  Claim C10, as stated: two calls of \<^verbatim>\<open>stop_measurement\<close> in a row issue the device's
  \<^verbatim>\<open>StopMeasurement\<close> at most once. This fails when the first call's
  \<^verbatim>\<open>StopMeasurement\<close> raises: the flag stays set, and the second call issues it again.
\<close>

theorem stop_twice_issues_two_calls:
  "\<not> stop_calls (snd (snd (stop_twice stuck_device running_controller []))) \<le> stop_calls [] + 1"
  by (simp add: stop_twice_def stop_measurement_def stuck_device_def running_controller_def
      init_controller_def stop_calls_def)

text \<open>
  Claim C10, amended: if no measurement has been started, \<^verbatim>\<open>stop_measurement\<close> returns
  \<^verbatim>\<open>True\<close> at once, with no device call and the controller unchanged; a stop that
  returns \<^verbatim>\<open>True\<close> leaves the flag cleared; and when the \<^verbatim>\<open>StopMeasurement\<close> of the
  first of two calls in a row is issued and returns, the flag is cleared, the second call
  returns \<^verbatim>\<open>True\<close> without any device call, and the two calls together issue
  \<^verbatim>\<open>StopMeasurement\<close> at most once.
\<close>

theorem stop_measurement_idempotent_after_success:
  "(\<not> measurement_started self \<longrightarrow> stop_measurement env self t = (True, self, t)) \<and>
   (fst (stop_measurement env self t) \<longrightarrow>
      \<not> measurement_started (fst (snd (stop_measurement env self t)))) \<and>
   (experiment_obj self \<noteq> None \<and> env t StopMeasurement \<noteq> Raises \<longrightarrow>
      \<not> measurement_started (fst (snd (stop_measurement env self t))) \<and>
      stop_twice env self t = (True, snd (stop_measurement env self t)) \<and>
      stop_calls (snd (snd (stop_twice env self t))) \<le> stop_calls t + 1)"
  by (auto simp: stop_measurement_def stop_twice_def stop_calls_def Let_def
      split: option.splits reply.splits)

theorem stop_measurement_idempotent_after_success_witness:
  "\<not> measurement_started (init_controller ''Demo3'') \<and>
   stop_measurement stuck_device (init_controller ''Demo3'') [] =
     (True, init_controller ''Demo3'', []) \<and>
   experiment_obj running_controller \<noteq> None \<and>
   constant_device 0 [] StopMeasurement \<noteq> Raises \<and>
   fst (stop_measurement (constant_device 0) running_controller []) \<and>
   \<not> measurement_started (fst (snd (stop_measurement (constant_device 0) running_controller []))) \<and>
   stop_calls (snd (snd (stop_twice (constant_device 0) running_controller []))) \<le> stop_calls [] + 1"
proof -
  have a: "\<not> measurement_started (init_controller ''Demo3'')"
    by (simp add: init_controller_def)
  have b: "experiment_obj running_controller \<noteq> None \<and>
           constant_device 0 [] StopMeasurement \<noteq> Raises"
    by (simp add: running_controller_def constant_device_def)
  have c: "fst (stop_measurement (constant_device 0) running_controller [])"
    by (simp add: stop_measurement_def running_controller_def constant_device_def
        init_controller_def)
  show ?thesis
    using a b c
      stop_measurement_idempotent_after_success [of "init_controller ''Demo3''" stuck_device "[]"]
      stop_measurement_idempotent_after_success [of running_controller "constant_device 0" "[]"]
    by blast
qed

section \<open>Properties of the channel set and of a row's values\<close>
































end
